theory Spec2Isabelle
  imports Complex_Main "HOL-Library.AList"
begin

section \<open>Process supervisor (server.py)\<close>

subsection \<open>Values shared by the handlers\<close>

text \<open>
  Python's \<open>str(n)\<close> for an integer, as the f-strings of the handlers use it for pids,
  ports and exit codes.
\<close>

definition digit_char :: "nat \<Rightarrow> char" where
  "digit_char d = ''0123456789'' ! d"

function str_nat :: "nat \<Rightarrow> string" where
  "str_nat n = (if n < 10 then [digit_char n] else str_nat (n div 10) @ [digit_char (n mod 10)])"
  by pat_completeness auto
termination
  by (relation "measure id") auto

declare str_nat.simps [simp del]

definition str_int :: "int \<Rightarrow> string" where
  "str_int i = (if i < 0 then CHR ''-'' # str_nat (nat (- i)) else str_nat (nat i))"

text \<open>
  Exceptions are values. The handlers catch by class: \<open>ProcessLookupError\<close>,
  \<open>FileNotFoundError\<close> and \<open>subprocess.TimeoutExpired\<close> by name, everything else through
  \<open>except Exception\<close>. \<open>str_exn\<close> is \<open>str(e)\<close>.
\<close>

datatype exn_class = ProcessLookupError | FileNotFoundError | TimeoutExpired | OtherException

datatype exn = Exn (cls: exn_class) (str_exn: string)

datatype signal = SIGTERM | SIGKILL

text \<open>
  A \<open>subprocess.Popen\<close> handle: its pid, and \<open>returncode\<close>, which stays \<open>None\<close> until
  \<open>poll\<close>, \<open>wait\<close> or \<open>communicate\<close> has observed the exit.
\<close>

record popen =
  pid :: int
  returncode :: "int option"

record logs =
  stdout :: "string list"
  stderr :: "string list"

text \<open>
  The two module-level dicts. A Python dict keeps insertion order, assigning to a present
  key replaces its value in place, and \<open>del\<close> removes the key: \<open>AList.update\<close> and
  \<open>AList.delete\<close> on an association list.
\<close>

record server_state =
  active_processes :: "(int \<times> popen) list"
  process_logs :: "(int \<times> logs) list"

text \<open>
  The JSON bodies the handlers write:
  \<open>StartOk p\<close> is \<open>{"success": true, "pid": p}\<close>, \<open>Ok\<close> is \<open>{"success": true}\<close>,
  \<open>Fail m\<close> is \<open>{"success": false, "error": m}\<close>, and \<open>LogsOk p out err\<close> is
  \<open>{"success": true, "pid": p, "stdout": out, "stderr": err}\<close>.
\<close>

datatype body = StartOk int | Ok | Fail string | LogsOk int "string list" "string list"

datatype response = Response (status: nat) (body: body)

text \<open>What a handler does to the world outside the two dicts, in the order it does it.\<close>

datatype action =
    Print string
  | ConnectEx nat
  | Run "string list"
  | OsKill int signal
  | Sleep real
  | Exists string
  | Popen
  | StartThread int string
  | Poll int
  | Communicate int
  | Terminate int
  | Kill int
  | Wait int real

text \<open>
  What the operating system answers during one handler call. Every field is an
  observation the handler makes: \<open>win32\<close> is \<open>sys.platform == 'win32'\<close>;
  \<open>port_in_use p\<close> is \<open>connect_ex(('localhost', p)) == 0\<close>;
  \<open>subprocess_run argv\<close> is the outcome of \<open>subprocess.run(argv, capture_output=True)\<close>,
  an exception or the pids printed on stdout, one per line (\<open>lsof -t\<close> prints nothing
  else), an empty list standing for an empty stdout;
  \<open>os_kill p sig\<close> is the exception \<open>os.kill(p, sig)\<close> raises, if any;
  \<open>proc_signal p sig\<close> is the same for \<open>process.terminate()\<close> and \<open>process.kill()\<close>;
  \<open>path_str f\<close> is \<open>str(SCRIPT_DIR / f)\<close> and \<open>path_exists f\<close> is
  \<open>(SCRIPT_DIR / f).exists()\<close>; \<open>script_dir\<close> is \<open>str(SCRIPT_DIR)\<close>;
  \<open>popen_result\<close> is the pid of the spawned child or the exception \<open>Popen\<close> raises;
  \<open>child_lines\<close> is what the two reader threads read from the child's pipes before
  the poll: each line as \<open>readline\<close> returns it, with the log type of the thread that
  read it, in the order the threads append them;
  \<open>poll_result\<close> is \<open>process.poll()\<close> after the delay;
  \<open>wait_result\<close> is the exit code \<open>process.wait(timeout=3)\<close> returns or the exception
  it raises.
\<close>

record env =
  win32 :: bool
  port_in_use :: "nat \<Rightarrow> bool"
  subprocess_run :: "string list \<Rightarrow> exn + int list"
  os_kill :: "int \<Rightarrow> signal \<Rightarrow> exn option"
  proc_signal :: "int \<Rightarrow> signal \<Rightarrow> exn option"
  script_dir :: string
  path_str :: "string \<Rightarrow> string"
  path_exists :: "string \<Rightarrow> bool"
  popen_result :: "exn + int"
  child_lines :: "(string \<times> string) list"
  poll_result :: "int option"
  wait_result :: "exn + int"

subsection \<open>Port reclamation\<close>

text \<open>
  The loop over the pids \<open>lsof\<close> printed: \<open>os.kill(int(port_pid), signal.SIGKILL)\<close>, a
  message on success, \<open>ProcessLookupError\<close> swallowed, any other exception leaving the
  loop. \<open>msg\<close> is the message of the handler that runs the loop.
\<close>

fun kill_port_pids :: "env \<Rightarrow> (int \<Rightarrow> string) \<Rightarrow> int list \<Rightarrow> action list \<times> exn option" where
  "kill_port_pids e msg [] = ([], None)"
| "kill_port_pids e msg (p # ps) =
     (case os_kill e p SIGKILL of
        None \<Rightarrow>
          (case kill_port_pids e msg ps of (tr, r) \<Rightarrow> (OsKill p SIGKILL # Print (msg p) # tr, r))
      | Some x \<Rightarrow>
          if cls x = ProcessLookupError
          then (case kill_port_pids e msg ps of (tr, r) \<Rightarrow> (OsKill p SIGKILL # tr, r))
          else ([OsKill p SIGKILL], Some x))"

definition taskkill_argv :: "string list" where
  "taskkill_argv = [''taskkill'', ''/F'', ''/IM'', ''python.exe'']"

definition lsof_argv :: "string \<Rightarrow> string list" where
  "lsof_argv port = [''lsof'', ''-ti'', CHR '':'' # port]"

definition pkill_argv :: "string list" where
  "pkill_argv = [''pkill'', ''-f'', ''bot.py'']"

definition run_ignoring_output :: "env \<Rightarrow> string list \<Rightarrow> exn option" where
  "run_ignoring_output e argv = (case subprocess_run e argv of Inl x \<Rightarrow> Some x | Inr _ \<Rightarrow> None)"

text \<open>
  The block both \<open>_start_bot\<close> (port 8765) and \<open>_stop_bot\<close> (\<open>force_port\<close>) carry:
  \<open>taskkill\<close> on win32; elsewhere \<open>lsof\<close> and the kill loop inside a \<open>try\<close> whose
  \<open>except FileNotFoundError\<close> runs \<open>pkill\<close>. An empty stdout skips the loop, which is
  what the loop over no pids does. The result is the exception that leaves the block,
  if any.
\<close>

definition free_port :: "env \<Rightarrow> string \<Rightarrow> (int \<Rightarrow> string) \<Rightarrow> action list \<times> exn option" where
  "free_port e port msg =
     (if win32 e then ([Run taskkill_argv], run_ignoring_output e taskkill_argv)
      else
        (case (case subprocess_run e (lsof_argv port) of
                 Inl x \<Rightarrow> ([Run (lsof_argv port)], Some x)
               | Inr pids \<Rightarrow>
                   (case kill_port_pids e msg pids of (tr, r) \<Rightarrow> (Run (lsof_argv port) # tr, r))) of
           (tr, None) \<Rightarrow> (tr, None)
         | (tr, Some x) \<Rightarrow>
             if cls x = FileNotFoundError
             then (tr @ [Run pkill_argv], run_ignoring_output e pkill_argv)
             else (tr, Some x)))"

subsection \<open>\<open>_start_bot\<close>\<close>

definition start_failed :: "server_state \<Rightarrow> action list \<Rightarrow> exn \<Rightarrow> server_state \<times> response \<times> action list" where
  "start_failed s tr x =
     (s, Response 500 (Fail (str_exn x)), tr @ [Print (''Error starting bot.py: '' @ str_exn x)])"

definition creds_missing_msg :: "env \<Rightarrow> string" where
  "creds_missing_msg e =
     ''Google Cloud credentials file not found at '' @ path_str e ''creds.json'' @
     ''. Please create this file with your Google Cloud credentials.''"

definition env_missing_msg :: "env \<Rightarrow> string" where
  "env_missing_msg e =
     ''.env file not found at '' @ path_str e ''.env'' @
     ''. Please create this file with your OpenAI API key.''"

text \<open>The port check and reclamation of lines 97 to 122, with the one second sleep.\<close>

definition reclaim_8765 :: "env \<Rightarrow> action list \<times> exn option" where
  "reclaim_8765 e =
     (if port_in_use e 8765 then
        (case free_port e ''8765'' (\<lambda>p. ''Killed process '' @ str_int p @ '' using port 8765'') of
           (tr, None) \<Rightarrow>
             (ConnectEx 8765 # Print ''Port 8765 is in use, attempting to free it...'' # tr @ [Sleep 1],
              None)
         | (tr, Some x) \<Rightarrow>
             (ConnectEx 8765 # Print ''Port 8765 is in use, attempting to free it...'' # tr, Some x))
      else ([ConnectEx 8765], None))"

text \<open>
  \<open>line.strip()\<close>: Python strips the characters for which \<open>isspace\<close> holds; among the
  code points below 256 these are 9 to 13, 28 to 32, 133 and 160.
\<close>

definition is_space :: "char \<Rightarrow> bool" where
  "is_space c \<longleftrightarrow>
     c \<in> {CHR 0x09, CHR 0x0A, CHR 0x0B, CHR 0x0C, CHR 0x0D, CHR 0x1C, CHR 0x1D, CHR 0x1E, CHR 0x1F,
          CHR 0x20, CHR 0x85, CHR 0xA0}"

definition strip :: "string \<Rightarrow> string" where
  "strip l = rev (dropWhile is_space (rev (dropWhile is_space l)))"

text \<open>
  The body of the loop of \<open>read_output\<close> for one line (lines 163 and 164):
  \<open>if pid in process_logs: process_logs[pid][log_type].append(line.strip())\<close>. The two
  threads are started with the log types \<open>"stdout"\<close> and \<open>"stderr"\<close>; another key would
  raise \<open>KeyError\<close> inside the thread and append nothing.
\<close>

definition read_line :: "int \<Rightarrow> string \<Rightarrow> string \<Rightarrow> (int \<times> logs) list \<Rightarrow> (int \<times> logs) list" where
  "read_line p log_type line pl =
     (case map_of pl p of
        None \<Rightarrow> pl
      | Some l \<Rightarrow>
          if log_type = ''stdout'' then AList.update p (l\<lparr>stdout := stdout l @ [strip line]\<rparr>) pl
          else if log_type = ''stderr'' then AList.update p (l\<lparr>stderr := stderr l @ [strip line]\<rparr>) pl
          else pl)"

text \<open>
  The iterations of the two reader threads of one worker, interleaved in the order in
  which they append.
\<close>

fun read_output :: "int \<Rightarrow> (string \<times> string) list \<Rightarrow> (int \<times> logs) list \<Rightarrow> (int \<times> logs) list" where
  "read_output p [] pl = pl"
| "read_output p ((log_type, line) # ls) pl = read_output p ls (read_line p log_type line pl)"

text \<open>
  Lines 146 to 201: spawn, register, start the readers, sleep, poll once, answer.
  While the handler sleeps, the readers append the lines the child writes. When the poll
  finds the child exited, both readers have reached the end of their pipe and closed it
  (line 165), so \<open>process.communicate()\<close> has no pipe left to read and returns two empty
  strings: \<open>output\<close> and \<open>error\<close> of line 185 are empty, and what the child wrote is in
  the log table only.
\<close>

definition spawn_bot :: "env \<Rightarrow> server_state \<Rightarrow> action list \<Rightarrow> server_state \<times> response \<times> action list" where
  "spawn_bot e s tr =
     (case popen_result e of
        Inl x \<Rightarrow> start_failed s (tr @ [Print (''Starting bot.py from '' @ script_dir e), Popen]) x
      | Inr p \<Rightarrow>
          (let s1 = s\<lparr>active_processes := AList.update p \<lparr>pid = p, returncode = None\<rparr> (active_processes s),
                      process_logs := AList.update p \<lparr>stdout = [], stderr = []\<rparr> (process_logs s)\<rparr>;
               s2 = s1\<lparr>process_logs := read_output p (child_lines e) (process_logs s1)\<rparr>;
               tr1 = tr @ [Print (''Starting bot.py from '' @ script_dir e), Popen,
                           StartThread p ''stdout'', StartThread p ''stderr'', Sleep 0.5, Poll p]
           in case poll_result e of
                Some code \<Rightarrow>
                  (case ([], []) of
                     (output, error) \<Rightarrow>
                       (s2\<lparr>active_processes :=
                             AList.update p \<lparr>pid = p, returncode = Some code\<rparr> (active_processes s2)\<rparr>,
                        Response 500
                          (Fail (''Bot failed to start (exit code '' @ str_int code @ ''): '' @ error)),
                        tr1 @ [Communicate p,
                               Print (''Bot process exited immediately with code '' @ str_int code),
                               Print (''STDOUT: '' @ output),
                               Print (''STDERR: '' @ error)]))
              | None \<Rightarrow>
                  (s2, Response 200 (StartOk p),
                   tr1 @ [Print (''Started bot.py process with PID: '' @ str_int p)])))"

definition start_bot :: "env \<Rightarrow> server_state \<Rightarrow> server_state \<times> response \<times> action list" where
  "start_bot e s =
     (case reclaim_8765 e of
        (tr, Some x) \<Rightarrow> start_failed s tr x
      | (tr, None) \<Rightarrow>
          if \<not> path_exists e ''creds.json'' then
            (s, Response 200 (Fail (creds_missing_msg e)),
             tr @ [Exists ''creds.json'',
                   Print (''Google Cloud credentials file not found at '' @ path_str e ''creds.json'')])
          else if \<not> path_exists e ''.env'' then
            (s, Response 200 (Fail (env_missing_msg e)),
             tr @ [Exists ''creds.json'', Exists ''.env'',
                   Print (''.env file not found at '' @ path_str e ''.env'')])
          else spawn_bot e s (tr @ [Exists ''creds.json'', Exists ''.env'']))"

subsection \<open>\<open>_stop_bot\<close>\<close>

text \<open>
  The parsed request body: \<open>data.get('pid')\<close>, \<open>data.get('force', False)\<close> and
  \<open>data.get('force_port')\<close>. An absent key and a JSON \<open>null\<close> are both \<open>None\<close>.
  Python's truth test of such a value: \<open>None\<close> and \<open>0\<close> are false.
\<close>

record stop_request =
  req_pid :: "int option"
  force :: bool
  force_port :: "int option"

definition truthy :: "int option \<Rightarrow> bool" where
  "truthy v = (case v of None \<Rightarrow> False | Some n \<Rightarrow> n \<noteq> 0)"

definition str_opt_int :: "int option \<Rightarrow> string" where
  "str_opt_int v = (case v of None \<Rightarrow> ''None'' | Some n \<Rightarrow> str_int n)"

definition stop_failed ::
  "server_state \<Rightarrow> stop_request \<Rightarrow> action list \<Rightarrow> exn \<Rightarrow> server_state \<times> response \<times> action list" where
  "stop_failed s rq tr x =
     (s, Response 500 (Fail (str_exn x)),
      tr @ [Print (''Error stopping bot.py (PID '' @ str_opt_int (req_pid rq) @ ''): '' @ str_exn x)])"

text \<open>
  One signal to the tracked worker: \<open>process.terminate()\<close> or \<open>process.kill()\<close> on win32,
  \<open>os.kill(pid, sig)\<close> elsewhere.
\<close>

definition send_signal :: "env \<Rightarrow> int \<Rightarrow> signal \<Rightarrow> action \<times> exn option" where
  "send_signal e p sig =
     (if win32 e then ((case sig of SIGTERM \<Rightarrow> Terminate p | SIGKILL \<Rightarrow> Kill p), proc_signal e p sig)
      else (OsKill p sig, os_kill e p sig))"

definition stop_done :: "server_state \<Rightarrow> int \<Rightarrow> action list \<Rightarrow> server_state \<times> response \<times> action list" where
  "stop_done s p tr =
     (s\<lparr>active_processes := AList.delete p (active_processes s)\<rparr>, Response 200 Ok, tr)"

text \<open>Lines 246 to 283: the lookup, the signals, the wait, the removal.\<close>

definition stop_tracked ::
  "env \<Rightarrow> stop_request \<Rightarrow> server_state \<Rightarrow> server_state \<times> response \<times> action list" where
  "stop_tracked e rq s =
     (case (if truthy (req_pid rq) then req_pid rq else None) of
        None \<Rightarrow> (s, Response 200 (Fail ''Process not found''), [])
      | Some p \<Rightarrow>
          (case map_of (active_processes s) p of
             None \<Rightarrow> (s, Response 200 (Fail ''Process not found''), [])
           | Some process \<Rightarrow>
               if force rq then
                 (case send_signal e p SIGKILL of
                    (a, Some x) \<Rightarrow> stop_failed s rq [a] x
                  | (a, None) \<Rightarrow>
                      stop_done s p [a, Print (''Force killed bot process with PID: '' @ str_int p)])
               else
                 (case send_signal e p SIGTERM of
                    (a, Some x) \<Rightarrow> stop_failed s rq [a] x
                  | (a, None) \<Rightarrow>
                      (case wait_result e of
                         Inr code \<Rightarrow>
                           stop_done s p
                             [a, Wait p 3,
                              Print (''Successfully terminated bot process with PID: '' @ str_int p)]
                       | Inl x \<Rightarrow>
                           if cls x = TimeoutExpired then
                             (case send_signal e p SIGKILL of
                                (k, Some y) \<Rightarrow> stop_failed s rq [a, Wait p 3, k] y
                              | (k, None) \<Rightarrow>
                                  stop_done s p
                                    [a, Wait p 3, k,
                                     Print (''Force killed bot process with PID: '' @ str_int p)])
                           else stop_failed s rq [a, Wait p 3] x))))"

definition stop_bot ::
  "env \<Rightarrow> stop_request \<Rightarrow> server_state \<Rightarrow> server_state \<times> response \<times> action list" where
  "stop_bot e rq s =
     (case (if truthy (force_port rq) then force_port rq else None) of
        Some port \<Rightarrow>
          (case free_port e (str_int port)
                  (\<lambda>p. ''Force killed process '' @ str_int p @ '' using port '' @ str_int port) of
             (tr, None) \<Rightarrow> (s, Response 200 Ok, tr)
           | (tr, Some x) \<Rightarrow> stop_failed s rq tr x)
      | None \<Rightarrow> stop_tracked e rq s)"

subsection \<open>\<open>_get_bot_logs\<close>\<close>

text \<open>
  \<open>max(process_logs.keys())\<close>; Python raises \<open>ValueError\<close> on no keys, \<open>None\<close> here.
\<close>

fun max_key :: "(int \<times> 'a) list \<Rightarrow> int option" where
  "max_key [] = None"
| "max_key ((k, v) # kvs) = (case max_key kvs of None \<Rightarrow> Some k | Some m \<Rightarrow> Some (max k m))"

text \<open>
  The handler has no \<open>try\<close>: an exception leaves it without a response, the \<open>Inl\<close> of the
  result. The argument is the request's \<open>pid\<close>, \<open>None\<close> when the body is empty or has none.
\<close>

definition get_bot_logs :: "int option \<Rightarrow> server_state \<Rightarrow> exn + response" where
  "get_bot_logs rq s =
     (case (if truthy rq then (case rq of Some p \<Rightarrow> map_option (Pair p) (map_of (process_logs s) p)
                                        | None \<Rightarrow> None)
            else None) of
        Some (p, l) \<Rightarrow> Inr (Response 200 (LogsOk p (stdout l) (stderr l)))
      | None \<Rightarrow>
          if \<not> truthy rq \<and> process_logs s \<noteq> [] then
            (case max_key (process_logs s) of
               None \<Rightarrow> Inl (Exn OtherException ''ValueError'')
             | Some latest_pid \<Rightarrow>
                 (case map_of (process_logs s) latest_pid of
                    None \<Rightarrow> Inl (Exn OtherException ''KeyError'')
                  | Some l \<Rightarrow> Inr (Response 200 (LogsOk latest_pid (stdout l) (stderr l)))))
          else Inr (Response 200 (Fail ''No bot logs available'')))"

subsection \<open>The control surface\<close>





definition initial_state :: server_state where
  "initial_state = \<lparr>active_processes = [], process_logs = []\<rparr>"

subsection \<open>Example observations\<close>

text \<open>
  Observations used to run the handlers on concrete inputs. \<open>quiet_env\<close>: a POSIX host,
  port 8765 free, both files present, the child gets pid 4242, writes nothing and is alive
  at the poll.
  \<open>crash_env\<close>: the child writes one line to each pipe and exits with code 1 before the
  poll. \<open>no_tools_env\<close>: port 8765 is taken and the host has neither \<open>lsof\<close> nor \<open>pkill\<close>, so
  \<open>subprocess.run\<close> raises \<open>FileNotFoundError\<close> for both. \<open>gone_env\<close>: the process a
  signal is sent to no longer exists, so \<open>os.kill\<close> raises \<open>ProcessLookupError\<close>.
\<close>

definition quiet_env :: env where
  "quiet_env =
     \<lparr>win32 = False,
      port_in_use = (\<lambda>p. False),
      subprocess_run = (\<lambda>argv. Inr []),
      os_kill = (\<lambda>p sig. None),
      proc_signal = (\<lambda>p sig. None),
      script_dir = ''/srv/app'',
      path_str = (\<lambda>f. ''/srv/app/'' @ f),
      path_exists = (\<lambda>f. True),
      popen_result = Inr 4242,
      child_lines = [],
      poll_result = None,
      wait_result = Inr 0\<rparr>"

definition crash_env :: env where
  "crash_env =
     quiet_env\<lparr>child_lines := [(''stdout'', ''loading'' @ [CHR 0x0A]),
                              (''stderr'', ''KeyError: OPENAI_API_KEY'' @ [CHR 0x0A])],
               poll_result := Some 1\<rparr>"

definition no_such_file :: "string list \<Rightarrow> exn" where
  "no_such_file argv =
     Exn FileNotFoundError
       (''[Errno 2] No such file or directory: '' @ [CHR 0x27] @
        (case argv of [] \<Rightarrow> [] | a # as \<Rightarrow> a) @ [CHR 0x27])"

definition no_tools_env :: env where
  "no_tools_env =
     quiet_env\<lparr>port_in_use := (\<lambda>p. True), subprocess_run := (\<lambda>argv. Inl (no_such_file argv))\<rparr>"

definition gone_env :: env where
  "gone_env =
     quiet_env\<lparr>os_kill := (\<lambda>p sig. Some (Exn ProcessLookupError ''[Errno 3] No such process''))\<rparr>"

section \<open>The worker (bot.py)\<close>

subsection \<open>Frames\<close>

text \<open>
  The frame classes the worker names, and \<open>OtherFrame\<close> for every other class of the
  pipeline engine, by its name. A context message is the dict literal of the source, its
  keys in order. A transcript message has a role, a content and an optional timestamp.
\<close>

record transcription_message =
  role :: string
  content :: string
  msg_timestamp :: "string option"

datatype frame =
    TranscriptionFrame (frame_text: string) (user_id: string) (timestamp: string)
  | LLMMessagesFrame "(string \<times> string) list list"
  | TranscriptionUpdateFrame "transcription_message list"
  | BotInterruptionFrame
  | EndFrame
  | OtherFrame string

datatype direction = Downstream | Upstream

subsection \<open>\<open>TranslationProcessor\<close>\<close>

record translation_processor =
  tp_in_language :: string
  tp_out_language :: string

definition system_instruction :: "translation_processor \<Rightarrow> string" where
  "system_instruction tp =
     ''You will be provided with a sentence in '' @ tp_in_language tp @
     '', and your task is to only translate it into '' @ tp_out_language tp @ ''.''"

text \<open>
  \<open>process_frame\<close> returns its calls of \<open>push_frame\<close> in order, each as the frame pushed
  and the direction of the push. The frame arrives with a direction, which line 71 hands
  to \<open>super().process_frame\<close>; the two pushes (lines 82 and 84) pass \<open>push_frame\<close> the
  frame alone, so both take its default direction, downstream, whatever direction the
  frame arrived with. \<open>isinstance(frame, TranscriptionFrame)\<close> is the first case.
\<close>

fun process_frame :: "translation_processor \<Rightarrow> frame \<Rightarrow> direction \<Rightarrow> (frame \<times> direction) list" where
  "process_frame tp (TranscriptionFrame t u ts) d =
     [(LLMMessagesFrame
         [[(''role'', ''system''), (''content'', system_instruction tp)],
          [(''role'', ''user''), (''content'', t)]],
       Downstream)]"
| "process_frame tp f d = [(f, Downstream)]"

text \<open>The stage on a stream of frames: one call per frame, the pushes in call order.\<close>

definition process_frames ::
  "translation_processor \<Rightarrow> (frame \<times> direction) list \<Rightarrow> (frame \<times> direction) list" where
  "process_frames tp fs = concat (map (\<lambda>(f, d). process_frame tp f d) fs)"

fun is_transcription :: "frame \<Rightarrow> bool" where
  "is_transcription (TranscriptionFrame t u ts) = True"
| "is_transcription f = False"

subsection \<open>\<open>TranscriptHandler\<close>\<close>

record transcript_handler =
  messages :: "transcription_message list"
  in_language :: string
  out_language :: string

text \<open>
  The dict \<open>message\<close> the loop body builds for one entry (lines 114 to 120). The loop
  builds it and goes on: no statement of the handler reads it.
\<close>

record translation_event =
  ev_event :: string
  ev_timestamp :: "string option"
  ev_role :: string
  ev_language :: string
  ev_text :: string

definition message_record :: "transcript_handler \<Rightarrow> transcription_message \<Rightarrow> translation_event" where
  "message_record h msg =
     \<lparr>ev_event = ''translation'',
      ev_timestamp = msg_timestamp msg,
      ev_role = role msg,
      ev_language = (if role msg = ''assistant'' then out_language h else in_language h),
      ev_text = content msg\<rparr>"

text \<open>
  The line \<open>logger.info\<close> writes for one entry: the timestamp in brackets when it is
  present and not empty, the role, the content.
\<close>

definition log_line :: "transcription_message \<Rightarrow> string" where
  "log_line msg =
     (case msg_timestamp msg of
        None \<Rightarrow> []
      | Some ts \<Rightarrow> if ts = [] then [] else ''['' @ ts @ ''] '') @
     role msg @ '': '' @ content msg"

text \<open>
  \<open>on_transcript_update\<close>: the handler with the batch appended, and the lines written to
  the log.
\<close>

definition on_transcript_update ::
  "transcript_handler \<Rightarrow> transcription_message list \<Rightarrow> transcript_handler \<times> string list" where
  "on_transcript_update h batch =
     (h\<lparr>messages := messages h @ batch\<rparr>, ''New transcript messages:'' # map log_line batch)"

fun updates :: "transcript_handler \<Rightarrow> transcription_message list list \<Rightarrow> transcript_handler" where
  "updates h [] = h"
| "updates h (b # bs) = updates (fst (on_transcript_update h b)) bs"

subsection \<open>\<open>SessionTimeoutHandler\<close>\<close>







section \<open>Properties of the worker\<close>

subsection \<open>The translation stage\<close>

text \<open>
  On any stream of frames the stage pushes exactly one frame per input frame, in input
  order: for a \<open>TranscriptionFrame\<close> carrying text \<open>t\<close>, one \<open>LLMMessagesFrame\<close> whose
  system message is the fixed translate-only instruction naming the configured source
  and target language and whose user message is \<open>t\<close> itself; for every other frame,
  the frame unchanged. Every push goes downstream.
\<close>

lemma translation_stage_pushes:
  "process_frames tp fs =
     map (\<lambda>(f, d).
            (case f of
               TranscriptionFrame t u ts \<Rightarrow>
                 LLMMessagesFrame
                   [[(''role'', ''system''),
                     (''content'',
                      ''You will be provided with a sentence in '' @ tp_in_language tp @
                      '', and your task is to only translate it into '' @ tp_out_language tp @ ''.'')],
                    [(''role'', ''user''), (''content'', t)]]
             | _ \<Rightarrow> f,
             Downstream)) fs"
proof (induction fs)
  case Nil
  show ?case by (simp add: process_frames_def)
next
  case (Cons a fs)
  obtain f d where a: "a = (f, d)" by (cases a)
  have one: "process_frame tp f d =
      [(case f of
          TranscriptionFrame t u ts \<Rightarrow>
            LLMMessagesFrame
              [[(''role'', ''system''),
                (''content'',
                 ''You will be provided with a sentence in '' @ tp_in_language tp @
                 '', and your task is to only translate it into '' @ tp_out_language tp @ ''.'')],
               [(''role'', ''user''), (''content'', t)]]
        | _ \<Rightarrow> f,
        Downstream)]"
    by (cases f) (simp_all add: system_instruction_def)
  have "process_frames tp (a # fs) = process_frame tp f d @ process_frames tp fs"
    by (simp add: process_frames_def a)
  with one Cons.IH show ?case by (simp add: a)
qed

text \<open>
  Claim C7 says that every frame of another kind is passed through unchanged. The code
  does not do so for a frame that arrives going upstream, as the error frames of the
  later stages do: it is pushed with the default direction and goes back downstream.
\<close>

theorem upstream_frame_reflected:
  "process_frame \<lparr>tp_in_language = ''Bengali'', tp_out_language = ''English''\<rparr>
     (OtherFrame ''ErrorFrame'') Upstream =
   [(OtherFrame ''ErrorFrame'', Downstream)]"
  by simp

subsection \<open>The transcript handler\<close>

text \<open>
  Every batch is appended to the log in arrival order, and no prior entry is discarded
  or reordered; the lines written to the log do not depend on the configured languages.
\<close>

lemma updates_fields:
  "messages (updates h bs) = messages h @ concat bs \<and>
   in_language (updates h bs) = in_language h \<and>
   out_language (updates h bs) = out_language h"
  by (induction bs arbitrary: h) (simp_all add: on_transcript_update_def)

lemma transcript_lines:
  "snd (on_transcript_update h b) = ''New transcript messages:'' # map log_line b \<and>
   snd (on_transcript_update (h\<lparr>in_language := src, out_language := tgt\<rparr>) b) =
     snd (on_transcript_update h b)"
  by (simp add: on_transcript_update_def)

text \<open>
  Claim C8 says that for each entry a record with the resolved language is emitted. The
  code builds that record and drops it. For an assistant entry with source Bengali and
  target English the record built has language English, and what the handler emits is
  one log line with the role and the content only.
\<close>

theorem transcript_record_not_emitted:
  "message_record \<lparr>messages = [], in_language = ''Bengali'', out_language = ''English''\<rparr>
     \<lparr>role = ''assistant'', content = ''hello'', msg_timestamp = None\<rparr> =
     \<lparr>ev_event = ''translation'', ev_timestamp = None, ev_role = ''assistant'',
      ev_language = ''English'', ev_text = ''hello''\<rparr> \<and>
   on_transcript_update \<lparr>messages = [], in_language = ''Bengali'', out_language = ''English''\<rparr>
     [\<lparr>role = ''assistant'', content = ''hello'', msg_timestamp = None\<rparr>] =
     (\<lparr>messages = [\<lparr>role = ''assistant'', content = ''hello'', msg_timestamp = None\<rparr>],
       in_language = ''Bengali'', out_language = ''English''\<rparr>,
      [''New transcript messages:'', ''assistant: hello''])"
  by (simp add: message_record_def on_transcript_update_def log_line_def)

subsection \<open>The session timeout handler\<close>









section \<open>Properties of the supervisor\<close>

subsection \<open>Log retrieval\<close>

lemma max_key_Some: "ps \<noteq> [] \<Longrightarrow> \<exists>k. max_key ps = Some k"
  by (cases ps) (auto split: option.splits)

lemma max_key_mem: "max_key ps = Some k \<Longrightarrow> k \<in> fst ` set ps"
proof (induction ps arbitrary: k)
  case Nil
  then show ?case by simp
next
  case (Cons a ps)
  obtain a1 a2 where a: "a = (a1, a2)" by (cases a)
  show ?case
  proof (cases "max_key ps")
    case None
    with Cons.prems a show ?thesis by simp
  next
    case (Some m)
    with Cons.IH have "m \<in> fst ` set ps" by simp
    moreover from Cons.prems a Some have "k = max a1 m" by simp
    ultimately show ?thesis using a by (auto simp: max_def)
  qed
qed

lemma max_key_ge: "max_key ps = Some k \<Longrightarrow> j \<in> fst ` set ps \<Longrightarrow> j \<le> k"
proof (induction ps arbitrary: k)
  case Nil
  then show ?case by simp
next
  case (Cons a ps)
  obtain a1 a2 where a: "a = (a1, a2)" by (cases a)
  show ?case
  proof (cases "max_key ps")
    case None
    then have "ps = []" by (cases ps) (auto split: option.splits)
    with Cons.prems a None show ?thesis by simp
  next
    case (Some m)
    from Cons.prems a Some have k: "k = max a1 m" by simp
    from Cons.prems(2) a have "j = a1 \<or> j \<in> fst ` set ps" by auto
    then show ?thesis
    proof
      assume "j = a1" with k show ?thesis by simp
    next
      assume "j \<in> fst ` set ps"
      with Cons.IH Some have "j \<le> m" by simp
      with k show ?thesis by simp
    qed
  qed
qed

lemma map_of_mem: "k \<in> fst ` set ps \<Longrightarrow> \<exists>v. map_of ps k = Some v"
  by (metis map_of_eq_None_iff not_Some_eq)

lemma get_bot_logs_known:
  "p \<noteq> 0 \<Longrightarrow> map_of (process_logs s) p = Some l \<Longrightarrow>
   get_bot_logs (Some p) s = Inr (Response 200 (LogsOk p (stdout l) (stderr l)))"
  by (simp add: get_bot_logs_def truthy_def)

lemma get_bot_logs_unknown:
  "p \<noteq> 0 \<Longrightarrow> map_of (process_logs s) p = None \<Longrightarrow>
   get_bot_logs (Some p) s = Inr (Response 200 (Fail ''No bot logs available''))"
  by (simp add: get_bot_logs_def truthy_def)

lemma get_bot_logs_empty:
  "process_logs s = [] \<Longrightarrow>
   get_bot_logs None s = Inr (Response 200 (Fail ''No bot logs available'')) \<and>
   get_bot_logs (Some 0) s = Inr (Response 200 (Fail ''No bot logs available''))"
  by (simp add: get_bot_logs_def truthy_def)

lemma get_bot_logs_zero: "get_bot_logs (Some 0) s = get_bot_logs None s"
  by (simp add: get_bot_logs_def truthy_def)

lemma get_none_unfold:
  "process_logs s \<noteq> [] \<Longrightarrow>
   get_bot_logs None s =
     (case max_key (process_logs s) of
        None \<Rightarrow> Inl (Exn OtherException ''ValueError'')
      | Some latest_pid \<Rightarrow>
          (case map_of (process_logs s) latest_pid of
             None \<Rightarrow> Inl (Exn OtherException ''KeyError'')
           | Some l \<Rightarrow> Inr (Response 200 (LogsOk latest_pid (stdout l) (stderr l)))))"
  unfolding get_bot_logs_def truthy_def by simp

lemma get_none_latest:
  assumes a: "process_logs s \<noteq> []" and b: "max_key (process_logs s) = Some k"
    and c: "map_of (process_logs s) k = Some l"
  shows "get_bot_logs None s = Inr (Response 200 (LogsOk k (stdout l) (stderr l)))"
  using get_none_unfold [OF a] by (simp only: b c option.case)

lemma get_bot_logs_latest:
  assumes "process_logs s \<noteq> []"
  shows "\<exists>k l. max_key (process_logs s) = Some k \<and> (\<forall>j \<in> fst ` set (process_logs s). j \<le> k) \<and>
           map_of (process_logs s) k = Some l \<and>
           get_bot_logs None s = Inr (Response 200 (LogsOk k (stdout l) (stderr l)))"
proof -
  from max_key_Some [OF assms] obtain k where k: "max_key (process_logs s) = Some k" ..
  from map_of_mem [OF max_key_mem [OF k]] obtain l where l: "map_of (process_logs s) k = Some l" ..
  have g: "get_bot_logs None s = Inr (Response 200 (LogsOk k (stdout l) (stderr l)))"
    using assms k l by (rule get_none_latest)
  have ge: "\<forall>j \<in> fst ` set (process_logs s). j \<le> k"
  proof
    fix j assume "j \<in> fst ` set (process_logs s)"
    with k show "j \<le> k" by (rule max_key_ge)
  qed
  show ?thesis
    by (intro exI conjI) (rule k, rule ge, rule l, rule g)
qed

text \<open>
  Claim C9, as stated, fails for the id 0, which no worker ever has: with a log record
  present, a request naming id 0 is answered with the logs of the latest worker, not
  with the error.
\<close>

theorem get_bot_logs_zero_counterexample:
  "get_bot_logs (Some 0)
     \<lparr>active_processes = [], process_logs = [(4242, \<lparr>stdout = [''ready''], stderr = []\<rparr>)]\<rparr> =
   Inr (Response 200 (LogsOk 4242 [''ready''] []))"
  by (simp add: get_bot_logs_def truthy_def)

text \<open>
  Claim C9, amended. For a request id other than 0: an id that has a log record is
  answered with that record's stdout and stderr lines in order (empty lists when nothing
  was recorded), and an id that has none with the error "No bot logs available". A
  request with no id, or with id 0, is answered with the logs of the greatest id that
  has a log record whenever one exists, and with the same error when none exists.
\<close>

theorem get_bot_logs_cases:
  "(p \<noteq> 0 \<longrightarrow> map_of (process_logs s) p = Some l \<longrightarrow>
      get_bot_logs (Some p) s = Inr (Response 200 (LogsOk p (stdout l) (stderr l)))) \<and>
   (p \<noteq> 0 \<longrightarrow> map_of (process_logs s) p = None \<longrightarrow>
      get_bot_logs (Some p) s = Inr (Response 200 (Fail ''No bot logs available''))) \<and>
   (process_logs s = [] \<longrightarrow>
      get_bot_logs None s = Inr (Response 200 (Fail ''No bot logs available''))) \<and>
   (process_logs s \<noteq> [] \<longrightarrow>
      (\<exists>k l'. max_key (process_logs s) = Some k \<and>
         (\<forall>j \<in> fst ` set (process_logs s). j \<le> k) \<and>
         map_of (process_logs s) k = Some l' \<and>
         get_bot_logs None s = Inr (Response 200 (LogsOk k (stdout l') (stderr l'))))) \<and>
   get_bot_logs (Some 0) s = get_bot_logs None s"
  using get_bot_logs_known [of p s l] get_bot_logs_unknown [of p s] get_bot_logs_empty [of s]
    get_bot_logs_latest [of s] get_bot_logs_zero [of s]
  by blast

text \<open>A known id with nothing recorded, and an unknown id.\<close>

theorem get_bot_logs_cases_witness:
  "get_bot_logs (Some 4300)
     \<lparr>active_processes = [],
      process_logs = [(4242, \<lparr>stdout = [''ready''], stderr = [''warn'']\<rparr>),
                      (4300, \<lparr>stdout = [], stderr = []\<rparr>)]\<rparr> =
     Inr (Response 200 (LogsOk 4300 [] [])) \<and>
   get_bot_logs (Some 7)
     \<lparr>active_processes = [],
      process_logs = [(4242, \<lparr>stdout = [''ready''], stderr = [''warn'']\<rparr>),
                      (4300, \<lparr>stdout = [], stderr = []\<rparr>)]\<rparr> =
     Inr (Response 200 (Fail ''No bot logs available''))"
proof -
  let ?s = "\<lparr>active_processes = [],
      process_logs = [(4242, \<lparr>stdout = [''ready''], stderr = [''warn'']\<rparr>),
                      (4300, \<lparr>stdout = [], stderr = []\<rparr>)]\<rparr>"
  have a: "(4300::int) \<noteq> 0" and b: "(7::int) \<noteq> 0" by simp_all
  have m1: "map_of (process_logs ?s) 4300 = Some \<lparr>stdout = [], stderr = []\<rparr>" by simp
  have m2: "map_of (process_logs ?s) 7 = None" by simp
  have "get_bot_logs (Some 4300) ?s =
      Inr (Response 200 (LogsOk 4300 (stdout \<lparr>stdout = [], stderr = []\<rparr>)
                                     (stderr \<lparr>stdout = [], stderr = []\<rparr>)))"
    using get_bot_logs_cases [of 4300 ?s "\<lparr>stdout = [], stderr = []\<rparr>"] a m1 by blast
  moreover have "get_bot_logs (Some 7) ?s = Inr (Response 200 (Fail ''No bot logs available''))"
    using get_bot_logs_cases [of 7 ?s "\<lparr>stdout = [], stderr = []\<rparr>"] b m2 by blast
  ultimately show ?thesis by simp
qed

subsection \<open>Starting a worker\<close>

text \<open>The reclamation neither spawns nor polls.\<close>

lemma kill_port_pids_quiet:
  "Popen \<notin> set (fst (kill_port_pids e msg ps)) \<and> Poll q \<notin> set (fst (kill_port_pids e msg ps))"
  by (induction ps) (auto split: option.splits prod.splits)

lemma free_port_quiet:
  "Popen \<notin> set (fst (free_port e port msg)) \<and> Poll q \<notin> set (fst (free_port e port msg))"
proof (cases "win32 e")
  case True
  then show ?thesis by (simp add: free_port_def)
next
  case False
  show ?thesis
  proof (cases "subprocess_run e (lsof_argv port)")
    case (Inl x)
    with False show ?thesis by (simp add: free_port_def)
  next
    case (Inr pids)
    obtain tr r where k: "kill_port_pids e msg pids = (tr, r)" by (cases "kill_port_pids e msg pids")
    from kill_port_pids_quiet [of e msg pids q] k
    have "Popen \<notin> set tr \<and> Poll q \<notin> set tr" by simp
    with False Inr k show ?thesis by (cases r) (simp_all add: free_port_def)
  qed
qed

lemma reclaim_8765_quiet:
  "Popen \<notin> set (fst (reclaim_8765 e)) \<and> Poll q \<notin> set (fst (reclaim_8765 e))"
proof (cases "port_in_use e 8765")
  case False
  then show ?thesis by (simp add: reclaim_8765_def)
next
  case True
  let ?msg = "\<lambda>p. ''Killed process '' @ str_int p @ '' using port 8765''"
  obtain tr r where f: "free_port e ''8765'' ?msg = (tr, r)"
    by (cases "free_port e ''8765'' ?msg")
  from free_port_quiet [of e "''8765''" ?msg q] f
  have "Popen \<notin> set tr \<and> Poll q \<notin> set tr" by simp
  with True f show ?thesis by (cases r) (simp_all add: reclaim_8765_def)
qed

text \<open>The branches of \<open>_start_bot\<close>.\<close>

lemma start_bot_raised:
  "reclaim_8765 e = (tr, Some x) \<Longrightarrow>
   start_bot e s = (s, Response 500 (Fail (str_exn x)), tr @ [Print (''Error starting bot.py: '' @ str_exn x)])"
  by (simp add: start_bot_def start_failed_def)

lemma start_bot_no_creds:
  "reclaim_8765 e = (tr, None) \<Longrightarrow> \<not> path_exists e ''creds.json'' \<Longrightarrow>
   start_bot e s =
     (s, Response 200 (Fail (creds_missing_msg e)),
      tr @ [Exists ''creds.json'',
            Print (''Google Cloud credentials file not found at '' @ path_str e ''creds.json'')])"
  by (simp add: start_bot_def)

lemma start_bot_no_env:
  "reclaim_8765 e = (tr, None) \<Longrightarrow> path_exists e ''creds.json'' \<Longrightarrow> \<not> path_exists e ''.env'' \<Longrightarrow>
   start_bot e s =
     (s, Response 200 (Fail (env_missing_msg e)),
      tr @ [Exists ''creds.json'', Exists ''.env'',
            Print (''.env file not found at '' @ path_str e ''.env'')])"
  by (simp add: start_bot_def)

lemma start_bot_spawns:
  "reclaim_8765 e = (tr, None) \<Longrightarrow> path_exists e ''creds.json'' \<Longrightarrow> path_exists e ''.env'' \<Longrightarrow>
   start_bot e s = spawn_bot e s (tr @ [Exists ''creds.json'', Exists ''.env''])"
  by (simp add: start_bot_def)


text \<open>
  The reader threads keep the keys of the log table, leave the records of other workers
  alone, and append to the record of their worker the stripped lines of each pipe, in
  order.
\<close>

lemma read_line_keys: "fst ` set (read_line p ty line pl) = fst ` set pl"
proof (cases "map_of pl p")
  case None
  then show ?thesis by (simp add: read_line_def)
next
  case (Some l)
  then have "(p, l) \<in> set pl" by (rule map_of_SomeD)
  then have "p \<in> fst ` set pl" by force
  with Some show ?thesis by (auto simp: read_line_def dom_update)
qed


lemma read_line_same:
  "map_of pl p = Some l \<Longrightarrow>
   map_of (read_line p ty line pl) p =
     Some (l\<lparr>stdout := stdout l @ (if ty = ''stdout'' then [strip line] else []),
             stderr := stderr l @ (if ty = ''stderr'' then [strip line] else [])\<rparr>)"
  by (simp add: read_line_def update_conv')

lemma read_output_keys: "fst ` set (read_output p ls pl) = fst ` set pl"
proof (induction ls arbitrary: pl)
  case Nil
  show ?case by simp
next
  case (Cons a ls)
  obtain ty line where a: "a = (ty, line)" by (cases a)
  show ?case unfolding a by (simp add: Cons.IH read_line_keys)
qed


lemma read_output_same:
  "map_of pl p = Some l \<Longrightarrow>
   map_of (read_output p ls pl) p =
     Some (l\<lparr>stdout := stdout l @ map (strip \<circ> snd) (filter (\<lambda>(ty, line). ty = ''stdout'') ls),
             stderr := stderr l @ map (strip \<circ> snd) (filter (\<lambda>(ty, line). ty = ''stderr'') ls)\<rparr>)"
proof (induction ls arbitrary: pl l)
  case Nil
  then show ?case by simp
next
  case (Cons a ls)
  obtain ty line where a: "a = (ty, line)" by (cases a)
  note s = read_line_same [OF Cons.prems, of ty line]
  show ?case unfolding a by (simp add: Cons.IH [OF s])
qed

lemma spawn_bot_alive:
  "popen_result e = Inr p \<Longrightarrow> poll_result e = None \<Longrightarrow>
   spawn_bot e s tr =
     (s\<lparr>active_processes := AList.update p \<lparr>pid = p, returncode = None\<rparr> (active_processes s),
        process_logs :=
          read_output p (child_lines e)
            (AList.update p \<lparr>stdout = [], stderr = []\<rparr> (process_logs s))\<rparr>,
      Response 200 (StartOk p),
      tr @ [Print (''Starting bot.py from '' @ script_dir e), Popen,
            StartThread p ''stdout'', StartThread p ''stderr'', Sleep 0.5, Poll p,
            Print (''Started bot.py process with PID: '' @ str_int p)])"
  by (simp add: spawn_bot_def Let_def)

lemma spawn_bot_exited:
  "popen_result e = Inr p \<Longrightarrow> poll_result e = Some code \<Longrightarrow>
   spawn_bot e s tr =
     (s\<lparr>active_processes := AList.update p \<lparr>pid = p, returncode = Some code\<rparr>
           (AList.update p \<lparr>pid = p, returncode = None\<rparr> (active_processes s)),
        process_logs :=
          read_output p (child_lines e)
            (AList.update p \<lparr>stdout = [], stderr = []\<rparr> (process_logs s))\<rparr>,
      Response 500 (Fail (''Bot failed to start (exit code '' @ str_int code @ ''): '')),
      tr @ [Print (''Starting bot.py from '' @ script_dir e), Popen,
            StartThread p ''stdout'', StartThread p ''stderr'', Sleep 0.5, Poll p,
            Communicate p,
            Print (''Bot process exited immediately with code '' @ str_int code),
            Print ''STDOUT: '',
            Print ''STDERR: ''])"
  by (simp add: spawn_bot_def Let_def)

text \<open>A call whose trace holds \<open>Popen\<close> passed the reclamation and both file checks.\<close>

lemma start_bot_popen:
  assumes "Popen \<in> set (snd (snd (start_bot e s)))"
  shows "\<exists>tr. reclaim_8765 e = (tr, None) \<and> path_exists e ''creds.json'' \<and> path_exists e ''.env'' \<and>
           start_bot e s = spawn_bot e s (tr @ [Exists ''creds.json'', Exists ''.env''])"
proof -
  obtain tr r where R: "reclaim_8765 e = (tr, r)" by (cases "reclaim_8765 e")
  from reclaim_8765_quiet [of e] R have q: "Popen \<notin> set tr" by simp
  show ?thesis
  proof (cases r)
    case (Some x)
    with R have "start_bot e s = (s, Response 500 (Fail (str_exn x)), tr @ [Print (''Error starting bot.py: '' @ str_exn x)])"
      by (simp add: start_bot_raised)
    with assms q show ?thesis by simp
  next
    case None
    note R' = R [unfolded None]
    show ?thesis
    proof (cases "path_exists e ''creds.json''")
      case False
      from start_bot_no_creds [OF R' False, of s] assms q show ?thesis by simp
    next
      case c: True
      show ?thesis
      proof (cases "path_exists e ''.env''")
        case False
        from start_bot_no_env [OF R' c False, of s] assms q show ?thesis by simp
      next
        case True
        from start_bot_spawns [OF R' c True, of s] R' c True show ?thesis by blast
      qed
    qed
  qed
qed

lemma str_int_1: "str_int 1 = ''1''"
  by (simp add: str_int_def str_nat.simps digit_char_def)

text \<open>
  Every Start call that spawns a worker sleeps 0.5 and then polls the child, once in the
  whole call. If the child is alive, the answer is status 200 with success true and the
  child's pid. If the poll finds the child exited, the answer is status 500 with success
  false and an error that names the exit code, and nothing after it.
\<close>

lemma start_bot_liveness:
  assumes "Popen \<in> set (snd (snd (start_bot e s)))" and "popen_result e = Inr p"
  shows "\<exists>pre post.
           snd (snd (start_bot e s)) = pre @ [Sleep 0.5, Poll p] @ post \<and>
           (\<forall>q. Poll q \<notin> set pre \<and> Poll q \<notin> set post) \<and>
           (case poll_result e of
              Some code \<Rightarrow>
                fst (snd (start_bot e s)) =
                  Response 500 (Fail (''Bot failed to start (exit code '' @ str_int code @ ''): '')) \<and>
                Print ''STDOUT: '' \<in> set post \<and> Print ''STDERR: '' \<in> set post
            | None \<Rightarrow> fst (snd (start_bot e s)) = Response 200 (StartOk p))"
proof -
  from start_bot_popen [OF assms(1)] obtain tr where
    R: "reclaim_8765 e = (tr, None)" and
    S: "start_bot e s = spawn_bot e s (tr @ [Exists ''creds.json'', Exists ''.env''])"
    by blast
  let ?pre = "tr @ [Exists ''creds.json'', Exists ''.env'',
                    Print (''Starting bot.py from '' @ script_dir e), Popen,
                    StartThread p ''stdout'', StartThread p ''stderr'']"
  have pre: "\<forall>q. Poll q \<notin> set ?pre"
  proof
    fix q
    from reclaim_8765_quiet [of e q] R have "Poll q \<notin> set tr" by simp
    then show "Poll q \<notin> set ?pre" by simp
  qed
  show ?thesis
  proof (cases "poll_result e")
    case None
    let ?post = "[Print (''Started bot.py process with PID: '' @ str_int p)]"
    from spawn_bot_alive [OF assms(2) None] S
    have "snd (snd (start_bot e s)) = ?pre @ [Sleep 0.5, Poll p] @ ?post"
      and "fst (snd (start_bot e s)) = Response 200 (StartOk p)"
      by simp_all
    moreover have "\<forall>q. Poll q \<notin> set ?post" by simp
    ultimately show ?thesis using pre None by (intro exI [of _ ?pre] exI [of _ ?post]) simp
  next
    case (Some code)
    let ?post = "[Communicate p,
                  Print (''Bot process exited immediately with code '' @ str_int code),
                  Print ''STDOUT: '', Print ''STDERR: '']"
    from spawn_bot_exited [OF assms(2) Some] S
    have "snd (snd (start_bot e s)) = ?pre @ [Sleep 0.5, Poll p] @ ?post"
      and "fst (snd (start_bot e s)) =
             Response 500 (Fail (''Bot failed to start (exit code '' @ str_int code @ ''): ''))"
      by simp_all
    moreover have "\<forall>q. Poll q \<notin> set ?post" by simp
    ultimately show ?thesis using pre Some by (intro exI [of _ ?pre] exI [of _ ?post]) simp
  qed
qed

lemma crash_env_facts:
  "reclaim_8765 crash_env = ([ConnectEx 8765], None)"
  "path_exists crash_env ''creds.json''"
  "path_exists crash_env ''.env''"
  "popen_result crash_env = Inr 4242"
  "poll_result crash_env = Some 1"
  "script_dir crash_env = ''/srv/app''"
  "child_lines crash_env =
     [(''stdout'', ''loading'' @ [CHR 0x0A]), (''stderr'', ''KeyError: OPENAI_API_KEY'' @ [CHR 0x0A])]"
  by (simp_all add: reclaim_8765_def crash_env_def quiet_env_def)

lemma crash_env_logs:
  "read_output 4242 (child_lines crash_env) [(4242, \<lparr>stdout = [], stderr = []\<rparr>)] =
     [(4242, \<lparr>stdout = [''loading''], stderr = [''KeyError: OPENAI_API_KEY'']\<rparr>)]"
  by (simp add: crash_env_facts(7) read_line_def strip_def is_space_def)

text \<open>
  Claim C4 says that the failure Start reports for a worker that exited before the poll
  includes the captured output. The code does not do so: the reader threads have taken
  the child's output into the log table and closed the pipes, so \<open>communicate\<close> returns
  nothing. The child of pid 4242 writes one line to each pipe and exits with code 1; the
  answer names the exit code and carries no output, and so do the lines printed.
\<close>

theorem crashed_start_reports_no_output:
  "start_bot crash_env initial_state =
     (\<lparr>active_processes = [(4242, \<lparr>pid = 4242, returncode = Some 1\<rparr>)],
       process_logs = [(4242, \<lparr>stdout = [''loading''], stderr = [''KeyError: OPENAI_API_KEY'']\<rparr>)]\<rparr>,
      Response 500 (Fail ''Bot failed to start (exit code 1): ''),
      [ConnectEx 8765, Exists ''creds.json'', Exists ''.env'',
       Print ''Starting bot.py from /srv/app'', Popen,
       StartThread 4242 ''stdout'', StartThread 4242 ''stderr'', Sleep 0.5, Poll 4242,
       Communicate 4242,
       Print ''Bot process exited immediately with code 1'',
       Print ''STDOUT: '', Print ''STDERR: ''])"
  unfolding start_bot_spawns [OF crash_env_facts(1,2,3)] spawn_bot_exited [OF crash_env_facts(4,5)]
  by (simp add: initial_state_def crash_env_logs crash_env_facts(6) str_int_1)

subsection \<open>Preflight and reclamation\<close>

lemma reclaim_8765_port_free: "\<not> port_in_use e 8765 \<Longrightarrow> reclaim_8765 e = ([ConnectEx 8765], None)"
  by (simp add: reclaim_8765_def)

lemma missing_msgs_differ: "creds_missing_msg e \<noteq> env_missing_msg e"
  by (simp add: creds_missing_msg_def env_missing_msg_def)

lemma no_tools_reclaim:
  "reclaim_8765 (no_tools_env\<lparr>path_exists := ex\<rparr>) =
     ([ConnectEx 8765, Print ''Port 8765 is in use, attempting to free it...'',
       Run (lsof_argv ''8765''), Run pkill_argv],
      Some (no_such_file pkill_argv))"
  by (simp add: reclaim_8765_def free_port_def no_tools_env_def quiet_env_def
      run_ignoring_output_def no_such_file_def)






text \<open>
  Claim C5, as stated, fails when the reclamation itself raises: on a host where port
  8765 is taken and neither \<open>lsof\<close> nor \<open>pkill\<close> is installed, a Start with
  \<open>creds.json\<close> absent is answered with the \<open>pkill\<close> error, which names no missing
  artifact; the file checks are never reached.
\<close>

theorem missing_creds_counterexample:
  "\<not> path_exists (no_tools_env\<lparr>path_exists := (\<lambda>f. f \<noteq> ''creds.json'')\<rparr>) ''creds.json'' \<and>
   start_bot (no_tools_env\<lparr>path_exists := (\<lambda>f. f \<noteq> ''creds.json'')\<rparr>) initial_state =
     (initial_state,
      Response 500 (Fail (''[Errno 2] No such file or directory: '' @ [CHR 0x27] @ ''pkill'' @ [CHR 0x27])),
      [ConnectEx 8765, Print ''Port 8765 is in use, attempting to free it...'',
       Run [''lsof'', ''-ti'', '':8765''], Run [''pkill'', ''-f'', ''bot.py''],
       Print (''Error starting bot.py: [Errno 2] No such file or directory: '' @
              [CHR 0x27] @ ''pkill'' @ [CHR 0x27])])"
  unfolding start_bot_raised [OF no_tools_reclaim]
  by (simp add: no_such_file_def pkill_argv_def lsof_argv_def)

text \<open>
  Claim C5, amended. For every Start call with \<open>creds.json\<close> or \<open>.env\<close> absent, no
  worker is spawned, both tables are left as they were and the answer reports a failure.
  Whenever the reclamation step raised no error (as always when port 8765 is free), the
  answer has status 200 and an error message that names the missing file with its path:
  the credentials message when \<open>creds.json\<close> is absent, the \<open>.env\<close> message otherwise;
  the two messages differ.
\<close>

theorem start_bot_missing_artifact:
  assumes "\<not> path_exists e ''creds.json'' \<or> \<not> path_exists e ''.env''"
  shows "Popen \<notin> set (snd (snd (start_bot e s))) \<and>
         fst (start_bot e s) = s \<and>
         (\<exists>st m. fst (snd (start_bot e s)) = Response st (Fail m)) \<and>
         (snd (reclaim_8765 e) = None \<longrightarrow>
            fst (snd (start_bot e s)) =
              Response 200
                (Fail (if \<not> path_exists e ''creds.json'' then creds_missing_msg e
                       else env_missing_msg e))) \<and>
         (\<not> port_in_use e 8765 \<longrightarrow> snd (reclaim_8765 e) = None) \<and>
         creds_missing_msg e \<noteq> env_missing_msg e"
proof -
  obtain tr r where R: "reclaim_8765 e = (tr, r)" by (cases "reclaim_8765 e")
  from reclaim_8765_quiet [of e] R have q: "Popen \<notin> set tr" by simp
  have free: "\<not> port_in_use e 8765 \<longrightarrow> snd (reclaim_8765 e) = None"
    by (simp add: reclaim_8765_port_free)
  show ?thesis
  proof (cases r)
    case (Some x)
    from start_bot_raised [OF R [unfolded Some], of s] q R Some free missing_msgs_differ [of e]
    show ?thesis by simp
  next
    case None
    note R' = R [unfolded None]
    show ?thesis
    proof (cases "path_exists e ''creds.json''")
      case False
      from start_bot_no_creds [OF R' False, of s] q False free missing_msgs_differ [of e]
      show ?thesis by simp
    next
      case True
      with assms have v: "\<not> path_exists e ''.env''" by simp
      from start_bot_no_env [OF R' True v, of s] q True free missing_msgs_differ [of e]
      show ?thesis by simp
    qed
  qed
qed

text \<open>A host where only \<open>.env\<close> is missing.\<close>

theorem start_bot_missing_artifact_witness:
  "fst (snd (start_bot (quiet_env\<lparr>path_exists := (\<lambda>f. f \<noteq> ''.env'')\<rparr>) initial_state)) =
     Response 200
       (Fail ''.env file not found at /srv/app/.env. Please create this file with your OpenAI API key.'') \<and>
   Popen \<notin> set (snd (snd (start_bot (quiet_env\<lparr>path_exists := (\<lambda>f. f \<noteq> ''.env'')\<rparr>) initial_state)))"
proof -
  let ?e = "quiet_env\<lparr>path_exists := (\<lambda>f. f \<noteq> ''.env'')\<rparr>"
  have a: "\<not> path_exists ?e ''creds.json'' \<or> \<not> path_exists ?e ''.env''" by simp
  have c: "path_exists ?e ''creds.json''" by simp
  have f: "\<not> port_in_use ?e 8765" by (simp add: quiet_env_def)
  have m: "env_missing_msg ?e =
      ''.env file not found at /srv/app/.env. Please create this file with your OpenAI API key.''"
    by (simp add: env_missing_msg_def quiet_env_def)
  from start_bot_missing_artifact [OF a, of initial_state] f c
  have "fst (snd (start_bot ?e initial_state)) = Response 200 (Fail (env_missing_msg ?e))"
    and "Popen \<notin> set (snd (snd (start_bot ?e initial_state)))"
    by simp_all
  then show ?thesis unfolding m by blast
qed




subsection \<open>A worker that exits before the poll\<close>

text \<open>A Stop naming a tracked, non-zero pid is answered with success or with status 500.\<close>

lemma stop_tracked_found:
  assumes "req_pid rq = Some p" "p \<noteq> 0" "map_of (active_processes s) p = Some pr"
  shows "fst (snd (stop_tracked e rq s)) = Response 200 Ok \<or>
         (\<exists>m. fst (snd (stop_tracked e rq s)) = Response 500 (Fail m))"
proof -
  have t: "(if truthy (req_pid rq) then req_pid rq else None) = Some p"
    using assms by (simp add: truthy_def)
  obtain a1 r1 where k: "send_signal e p SIGKILL = (a1, r1)" by (cases "send_signal e p SIGKILL")
  obtain a2 r2 where g: "send_signal e p SIGTERM = (a2, r2)" by (cases "send_signal e p SIGTERM")
  show ?thesis
    unfolding stop_tracked_def t
    using assms(3) k g
    by (auto simp: stop_failed_def stop_done_def split: option.splits sum.splits)
qed

lemma stop_bot_found:
  assumes "req_pid rq = Some p" "p \<noteq> 0" "map_of (active_processes s) p = Some pr"
  shows "fst (snd (stop_bot e rq s)) = Response 200 Ok \<or>
         (\<exists>m. fst (snd (stop_bot e rq s)) = Response 500 (Fail m))"
proof (cases "if truthy (force_port rq) then force_port rq else None")
  case None
  then have "stop_bot e rq s = stop_tracked e rq s" by (simp add: stop_bot_def)
  with stop_tracked_found [OF assms, of e] show ?thesis by simp
next
  case (Some port)
  let ?msg = "\<lambda>p. ''Force killed process '' @ str_int p @ '' using port '' @ str_int port"
  obtain tr r where f: "free_port e (str_int port) ?msg = (tr, r)"
    by (cases "free_port e (str_int port) ?msg")
  show ?thesis
    unfolding stop_bot_def Some using f by (cases r) (simp_all add: stop_failed_def)
qed

lemma exited_env:
  "reclaim_8765 (quiet_env\<lparr>poll_result := Some 1\<rparr>) = ([ConnectEx 8765], None)"
  "path_exists (quiet_env\<lparr>poll_result := Some 1\<rparr>) ''creds.json''"
  "path_exists (quiet_env\<lparr>poll_result := Some 1\<rparr>) ''.env''"
  "popen_result (quiet_env\<lparr>poll_result := Some 1\<rparr>) = Inr 4242"
  "poll_result (quiet_env\<lparr>poll_result := Some 1\<rparr>) = Some 1"
  by (simp_all add: reclaim_8765_def quiet_env_def)

lemma exited_start:
  "fst (start_bot (quiet_env\<lparr>poll_result := Some 1\<rparr>) initial_state) =
     \<lparr>active_processes = [(4242, \<lparr>pid = 4242, returncode = Some 1\<rparr>)],
      process_logs = [(4242, \<lparr>stdout = [], stderr = []\<rparr>)]\<rparr> \<and>
   Popen \<in> set (snd (snd (start_bot (quiet_env\<lparr>poll_result := Some 1\<rparr>) initial_state)))"
  unfolding start_bot_spawns [OF exited_env(1,2,3)] spawn_bot_exited [OF exited_env(4,5)]
  by (simp add: initial_state_def quiet_env_def)

text \<open>
  Claim C10. When a Start call spawned a worker (with a pid that is not 0, as every pid
  the operating system assigns) and the poll found it exited, Start answers with status
  500, and after the call the pid is still a key of the active-process table, its handle
  now holding the exit code, and a key of the log table, its record holding the stripped
  lines the readers took from the two pipes; so no later Stop naming that pid, whatever
  else the request holds and whatever the host answers, is given the "Process not found"
  answer.
\<close>

theorem exited_worker_stays_tracked:
  assumes "Popen \<in> set (snd (snd (start_bot e s)))" and "popen_result e = Inr p"
    and "poll_result e = Some code" and "p \<noteq> 0"
  shows "(\<exists>m. fst (snd (start_bot e s)) = Response 500 (Fail m)) \<and>
         p \<in> fst ` set (active_processes (fst (start_bot e s))) \<and>
         p \<in> fst ` set (process_logs (fst (start_bot e s))) \<and>
         map_of (active_processes (fst (start_bot e s))) p = Some \<lparr>pid = p, returncode = Some code\<rparr> \<and>
         map_of (process_logs (fst (start_bot e s))) p =
           Some \<lparr>stdout = map (strip \<circ> snd) (filter (\<lambda>(ty, line). ty = ''stdout'') (child_lines e)),
                 stderr = map (strip \<circ> snd) (filter (\<lambda>(ty, line). ty = ''stderr'') (child_lines e))\<rparr> \<and>
         (\<forall>e' rq. req_pid rq = Some p \<longrightarrow>
            fst (snd (stop_bot e' rq (fst (start_bot e s)))) \<noteq> Response 200 (Fail ''Process not found''))"
proof -
  from start_bot_popen [OF assms(1)] obtain tr where
    S: "start_bot e s = spawn_bot e s (tr @ [Exists ''creds.json'', Exists ''.env''])"
    by blast
  note X = spawn_bot_exited [OF assms(2,3), of s "tr @ [Exists ''creds.json'', Exists ''.env'']"]
  have r: "\<exists>m. fst (snd (start_bot e s)) = Response 500 (Fail m)"
    unfolding S X by simp
  have a: "map_of (active_processes (fst (start_bot e s))) p = Some \<lparr>pid = p, returncode = Some code\<rparr>"
    unfolding S X by (simp add: update_conv')
  have u: "map_of (AList.update p \<lparr>stdout = [], stderr = []\<rparr> (process_logs s)) p =
      Some \<lparr>stdout = [], stderr = []\<rparr>"
    by (simp add: update_conv')
  have l: "map_of (process_logs (fst (start_bot e s))) p =
      Some \<lparr>stdout = map (strip \<circ> snd) (filter (\<lambda>(ty, line). ty = ''stdout'') (child_lines e)),
            stderr = map (strip \<circ> snd) (filter (\<lambda>(ty, line). ty = ''stderr'') (child_lines e))\<rparr>"
    unfolding S X using read_output_same [OF u, of "child_lines e"] by simp
  have ka: "p \<in> fst ` set (active_processes (fst (start_bot e s)))"
    using map_of_SomeD [OF a] by force
  have kl: "p \<in> fst ` set (process_logs (fst (start_bot e s)))"
    using map_of_SomeD [OF l] by force
  have n: "\<forall>e' rq. req_pid rq = Some p \<longrightarrow>
      fst (snd (stop_bot e' rq (fst (start_bot e s)))) \<noteq> Response 200 (Fail ''Process not found'')"
  proof (intro allI impI)
    fix e' :: env and rq :: stop_request
    assume q: "req_pid rq = Some p"
    from stop_bot_found [OF q assms(4) a, of e']
    show "fst (snd (stop_bot e' rq (fst (start_bot e s)))) \<noteq> Response 200 (Fail ''Process not found'')"
      by auto
  qed
  from r ka kl a l n show ?thesis by blast
qed

text \<open>
  The child of pid 4242 writes a line to each pipe and exits with code 1; a graceful Stop
  for 4242 follows.
\<close>

theorem exited_worker_stays_tracked_witness:
  "map_of (active_processes (fst (start_bot crash_env initial_state))) 4242 =
     Some \<lparr>pid = 4242, returncode = Some 1\<rparr> \<and>
   map_of (process_logs (fst (start_bot crash_env initial_state))) 4242 =
     Some \<lparr>stdout = [''loading''], stderr = [''KeyError: OPENAI_API_KEY'']\<rparr> \<and>
   fst (snd (stop_bot quiet_env \<lparr>req_pid = Some 4242, force = False, force_port = None\<rparr>
      (fst (start_bot crash_env initial_state)))) \<noteq>
     Response 200 (Fail ''Process not found'')"
proof -
  have h: "Popen \<in> set (snd (snd (start_bot crash_env initial_state)))"
    unfolding start_bot_spawns [OF crash_env_facts(1,2,3)] spawn_bot_exited [OF crash_env_facts(4,5)]
    by simp
  have z: "(4242::int) \<noteq> 0" by simp
  have q: "req_pid \<lparr>req_pid = Some 4242, force = False, force_port = None\<rparr> = Some 4242" by simp
  have c: "map (strip \<circ> snd) (filter (\<lambda>(ty, line). ty = ''stdout'') (child_lines crash_env)) = [''loading'']"
    "map (strip \<circ> snd) (filter (\<lambda>(ty, line). ty = ''stderr'') (child_lines crash_env)) =
       [''KeyError: OPENAI_API_KEY'']"
    by (simp_all add: crash_env_facts(7) strip_def is_space_def)
  from exited_worker_stays_tracked [OF h crash_env_facts(4) crash_env_facts(5) z] q
  show ?thesis unfolding c by blast
qed

subsection \<open>The active-process table\<close>















subsection \<open>Stopping a worker\<close>

lemma str_int_4242: "str_int 4242 = ''4242''"
  by (simp add: str_int_def str_nat.simps digit_char_def)

text \<open>
  A graceful Stop of a tracked worker whose termination signal is delivered: the signal,
  the wait of 3, then either the exit, or on \<open>TimeoutExpired\<close> the kill signal; in both
  cases the entry is deleted, the log table is not touched, and the answer is success.
\<close>

lemma stop_bot_graceful:
  assumes q: "req_pid rq = Some p" and z: "p \<noteq> 0" and f: "\<not> force rq"
    and fp: "\<not> truthy (force_port rq)" and m: "map_of (active_processes s) p = Some pr"
    and t: "send_signal e p SIGTERM = (a, None)"
  shows "(wait_result e = Inr code \<longrightarrow>
            stop_bot e rq s =
              (s\<lparr>active_processes := AList.delete p (active_processes s)\<rparr>, Response 200 Ok,
               [a, Wait p 3, Print (''Successfully terminated bot process with PID: '' @ str_int p)])) \<and>
         (wait_result e = Inl x \<longrightarrow> cls x = TimeoutExpired \<longrightarrow> send_signal e p SIGKILL = (k, None) \<longrightarrow>
            stop_bot e rq s =
              (s\<lparr>active_processes := AList.delete p (active_processes s)\<rparr>, Response 200 Ok,
               [a, Wait p 3, k, Print (''Force killed bot process with PID: '' @ str_int p)]))"
proof -
  have 1: "(if truthy (force_port rq) then force_port rq else None) = None" using fp by simp
  have 2: "(if truthy (req_pid rq) then req_pid rq else None) = Some p"
    using q z by (simp add: truthy_def)
  have "stop_bot e rq s = stop_tracked e rq s" by (simp add: stop_bot_def 1)
  then show ?thesis
    unfolding stop_tracked_def 2 using m f t by (simp add: stop_done_def)
qed

text \<open>When sending the termination signal raises, nothing is deleted.\<close>

lemma stop_bot_signal_raises:
  assumes q: "req_pid rq = Some p" and z: "p \<noteq> 0" and f: "\<not> force rq"
    and fp: "\<not> truthy (force_port rq)" and m: "map_of (active_processes s) p = Some pr"
    and t: "send_signal e p SIGTERM = (a, Some x)"
  shows "stop_bot e rq s =
           (s, Response 500 (Fail (str_exn x)),
            [a, Print (''Error stopping bot.py (PID '' @ str_int p @ ''): '' @ str_exn x)])"
proof -
  have 1: "(if truthy (force_port rq) then force_port rq else None) = None" using fp by simp
  have 2: "(if truthy (req_pid rq) then req_pid rq else None) = Some p"
    using q z by (simp add: truthy_def)
  have "stop_bot e rq s = stop_tracked e rq s" by (simp add: stop_bot_def 1)
  then show ?thesis
    unfolding stop_tracked_def 2 using m f t q by (simp add: stop_failed_def str_opt_int_def)
qed

text \<open>
  Claim C3 says that after every graceful Stop naming a tracked worker the table no
  longer contains its pid. The code does not do so for a tracked worker that is already
  gone. The child of pid 4242 exits before the poll of Start and stays tracked; the Stop
  that follows sends \<open>SIGTERM\<close> with \<open>os.kill\<close>, which raises \<open>ProcessLookupError\<close>; the
  handler subsequently answers 500, waits for nothing and leaves 4242 in the table.
\<close>

theorem stop_gone_worker_stays_tracked:
  "stop_bot gone_env \<lparr>req_pid = Some 4242, force = False, force_port = None\<rparr>
     (fst (start_bot (quiet_env\<lparr>poll_result := Some 1\<rparr>) initial_state)) =
   (\<lparr>active_processes = [(4242, \<lparr>pid = 4242, returncode = Some 1\<rparr>)],
     process_logs = [(4242, \<lparr>stdout = [], stderr = []\<rparr>)]\<rparr>,
    Response 500 (Fail ''[Errno 3] No such process''),
    [OsKill 4242 SIGTERM,
     Print ''Error stopping bot.py (PID 4242): [Errno 3] No such process''])"
proof -
  let ?rq = "\<lparr>req_pid = Some 4242, force = False, force_port = None\<rparr>"
  let ?s = "\<lparr>active_processes = [(4242, \<lparr>pid = 4242, returncode = Some 1\<rparr>)],
     process_logs = [(4242, \<lparr>stdout = [], stderr = []\<rparr>)]\<rparr>"
  have s: "fst (start_bot (quiet_env\<lparr>poll_result := Some 1\<rparr>) initial_state) = ?s"
    using exited_start by (rule conjunct1)
  have q: "req_pid ?rq = Some 4242" and z: "(4242::int) \<noteq> 0" and f: "\<not> force ?rq"
    and fp: "\<not> truthy (force_port ?rq)"
    by (simp_all add: truthy_def)
  have m: "map_of (active_processes ?s) 4242 = Some \<lparr>pid = 4242, returncode = Some 1\<rparr>" by simp
  have t: "send_signal gone_env 4242 SIGTERM =
      (OsKill 4242 SIGTERM, Some (Exn ProcessLookupError ''[Errno 3] No such process''))"
    by (simp add: send_signal_def gone_env_def quiet_env_def)
  show ?thesis
    unfolding s stop_bot_signal_raises [OF q z f fp m t] by (simp add: str_int_4242)
qed

end
